theory Spec2Isabelle
  imports Complex_Main "HOL-Library.Monad_Syntax"
begin

section \<open>Record model (models.py)\<close>

text \<open>
  A Python float, as far as the program looks at one: it is rendered with \<open>str\<close>, tested
  for truth and compared with zero. Finite values are kept as reals, the negative zero and
  the three special values are separate constructors.
\<close>

datatype pyfloat = Finite real | NegZero | PosInf | NegInf | NaN

text \<open>
  \<open>BillRecord\<close> is the second dataclass of that name in models.py, the one the module
  exports (it rebinds the name and adds \<open>added_to_qb\<close>). \<open>Optional[str]\<close> is
  \<open>string option\<close>, with \<open>None\<close> for Python's \<open>None\<close>.
\<close>

record BillRecord =
  record_id :: string
  supplier :: "string option"
  bank_date :: "string option"
  chart_account :: "string option"
  amount :: "pyfloat option"
  memo :: "string option"
  line_memo :: "string option"
  source :: string
  added_to_qb :: bool

text \<open>
  \<open>Conflict\<close> (second definition). Its attribute \<open>record_id\<close> is the field
  \<open>conflict_id\<close> here, since the name is taken by \<open>BillRecord\<close>.
\<close>

record Conflict =
  conflict_id :: string
  excel_name :: "string option"
  qb_name :: "string option"
  reason :: string

record ComparisonReport =
  excel_only :: "BillRecord list"
  qb_only :: "BillRecord list"
  conflicts :: "Conflict list"

section \<open>Reconciliation engine (comparer.py)\<close>

text \<open>Truth value of an \<open>Optional[str]\<close>: \<open>None\<close> and the empty string are false.\<close>

definition truthy :: "string option \<Rightarrow> bool" where
  "truthy s = (case s of None \<Rightarrow> False | Some t \<Rightarrow> t \<noteq> [])"

text \<open>
  \<open>str(bill.amount)\<close>: \<open>'None'\<close> for \<open>None\<close>, else Python's rendering of the float,
  which is a parameter \<open>sf\<close> (the library's shortest round-trip rendering).
\<close>

definition str_amount :: "(pyfloat \<Rightarrow> string) \<Rightarrow> pyfloat option \<Rightarrow> string" where
  "str_amount sf a = (case a of None \<Rightarrow> ''None'' | Some x \<Rightarrow> sf x)"

text \<open>The dict comprehension \<open>{bill.record_id: bill for bill in bills}\<close>.\<close>

definition index_bills :: "BillRecord list \<Rightarrow> (string \<rightharpoonup> BillRecord)" where
  "index_bills bills = foldl (\<lambda>m b. m(record_id b \<mapsto> b)) Map.empty bills"

text \<open>\<open>sep.join(xs)\<close>.\<close>

fun join :: "string \<Rightarrow> string list \<Rightarrow> string" where
  "join sep [] = []"
| "join sep [x] = x"
| "join sep (x # y # ys) = x @ sep @ join sep (y # ys)"

text \<open>The list \<open>mismatch_fields\<close> built for a pair present on both sides, in the order
  of the five tests.\<close>

definition mismatch_fields :: "(pyfloat \<Rightarrow> string) \<Rightarrow> BillRecord \<Rightarrow> BillRecord \<Rightarrow> string list" where
  "mismatch_fields sf excel_bill qb_bill =
     (if line_memo excel_bill = Some [] \<and> line_memo qb_bill = Some []
         \<and> memo excel_bill \<noteq> memo qb_bill
      then [''Memo mismatch''] else []) @
     (if truthy (line_memo excel_bill) \<and> truthy (line_memo qb_bill)
         \<and> line_memo excel_bill \<noteq> line_memo qb_bill
      then [''LineMemo mismatch''] else []) @
     (if supplier excel_bill \<noteq> supplier qb_bill
      then [''Supplier/Vendor mismatch''] else []) @
     (if str_amount sf (amount excel_bill) \<noteq> str_amount sf (amount qb_bill)
      then [''Amount mismatch''] else []) @
     (if chart_account excel_bill \<noteq> chart_account qb_bill
      then [''ChartAccount mismatch''] else [])"

text \<open>
  One pass of the loop body for \<open>rid\<close>. \<open>rb\<close> is \<open>str(bill)\<close>, the rendering that
  the dataclass generates for a record. A dataclass instance is always true, so
  \<open>if excel_bill\<close> tests for \<open>None\<close>.
\<close>

definition compare_step ::
  "(pyfloat \<Rightarrow> string) \<Rightarrow> (BillRecord \<Rightarrow> string) \<Rightarrow> (string \<rightharpoonup> BillRecord) \<Rightarrow>
   (string \<rightharpoonup> BillRecord) \<Rightarrow> ComparisonReport \<Rightarrow> string \<Rightarrow> ComparisonReport" where
  "compare_step sf rb excel_dict qb_dict rep rid =
     (case (excel_dict rid, qb_dict rid) of
        (Some excel_bill, None) \<Rightarrow> rep\<lparr>excel_only := excel_only rep @ [excel_bill]\<rparr>
      | (None, Some qb_bill) \<Rightarrow> rep\<lparr>qb_only := qb_only rep @ [qb_bill]\<rparr>
      | (Some excel_bill, Some qb_bill) \<Rightarrow>
          (if mismatch_fields sf excel_bill qb_bill \<noteq> []
           then rep\<lparr>conflicts := conflicts rep @
                  [\<lparr>conflict_id = rid, excel_name = Some (rb excel_bill),
                    qb_name = Some (rb qb_bill),
                    reason = join '', '' (mismatch_fields sf excel_bill qb_bill)\<rparr>]\<rparr>
           else rep)
      | (None, None) \<Rightarrow> rep)"

text \<open>
  \<open>all_ids\<close> is a Python set, so the loop visits the ids in an order the language does not
  fix. \<open>ids\<close> is that order: any list that holds each key of the two dicts once.
\<close>

definition all_ids_order :: "string list \<Rightarrow> BillRecord list \<Rightarrow> BillRecord list \<Rightarrow> bool" where
  "all_ids_order ids excel_bills qb_bills \<longleftrightarrow>
     distinct ids \<and> set ids = dom (index_bills excel_bills) \<union> dom (index_bills qb_bills)"

definition compare_bills ::
  "(pyfloat \<Rightarrow> string) \<Rightarrow> (BillRecord \<Rightarrow> string) \<Rightarrow> string list \<Rightarrow>
   BillRecord list \<Rightarrow> BillRecord list \<Rightarrow> ComparisonReport" where
  "compare_bills sf rb ids excel_bills qb_bills =
     foldl (compare_step sf rb (index_bills excel_bills) (index_bills qb_bills))
       \<lparr>excel_only = [], qb_only = [], conflicts = []\<rparr> ids"

text \<open>
  The record that the dataclass constructor builds from an id alone: every optional field
  \<open>None\<close>, \<open>source\<close> its default \<open>"excel"\<close>, \<open>added_to_qb\<close> false.
\<close>

abbreviation BillRecord_init :: "string \<Rightarrow> BillRecord" where
  "BillRecord_init rid \<equiv>
     \<lparr>record_id = rid, supplier = None, bank_date = None, chart_account = None,
      amount = None, memo = None, line_memo = None, source = ''excel'', added_to_qb = False\<rparr>"

text \<open>
  Last-write-wins in the words of the specification: of the records of a list that carry
  the id, the one that comes last.
\<close>

definition last_with_id :: "string \<Rightarrow> BillRecord list \<Rightarrow> BillRecord option" where
  "last_with_id rid bills =
     (let same = filter (\<lambda>b. record_id b = rid) bills
      in if same = [] then None else Some (last same))"

text \<open>The two sides of a conflict exchanged.\<close>

definition swap_sides :: "Conflict \<Rightarrow> Conflict" where
  "swap_sides c = c\<lparr>excel_name := qb_name c, qb_name := excel_name c\<rparr>"

section \<open>The class statements of models.py\<close>

text \<open>
  models.py defines each of \<open>BillRecord\<close>, \<open>Conflict\<close> and \<open>ComparisonReport\<close>
  twice. A class statement binds its name in the module; a second statement for the same
  name replaces the binding. A class is kept here by the fields it declares and the
  methods written in its body (the methods a dataclass generates are left out).
\<close>

datatype class_def = ClassDef (class_fields: "string list") (class_methods: "string list")

definition models_py :: "(string \<times> class_def) list" where
  "models_py =
     [(''BillRecord'', ClassDef [''record_id'', ''supplier'', ''bank_date'', ''chart_account'',
         ''amount'', ''memo'', ''line_memo'', ''source''] [''__repr__'']),
      (''Conflict'', ClassDef [''record_id'', ''excel_value'', ''qb_value'', ''reason''] []),
      (''ComparisonReport'', ClassDef [''excel_only'', ''qb_only'', ''conflicts'', ''matched'']
         [''to_json'']),
      (''BillRecord'', ClassDef [''record_id'', ''supplier'', ''bank_date'', ''chart_account'',
         ''amount'', ''memo'', ''line_memo'', ''source'', ''added_to_qb''] []),
      (''Conflict'', ClassDef [''record_id'', ''excel_name'', ''qb_name'', ''reason''] []),
      (''ComparisonReport'', ClassDef [''excel_only'', ''qb_only'', ''conflicts''] [])]"

definition bind_classes :: "(string \<times> class_def) list \<Rightarrow> (string \<rightharpoonup> class_def)" where
  "bind_classes stmts = foldl (\<lambda>ns (name, c). ns(name \<mapsto> c)) Map.empty stmts"

text \<open>
  Attribute lookup on an instance for a name that is a field or a method of its class;
  any other name raises \<open>AttributeError\<close>, which is \<open>None\<close> here.
\<close>

definition class_attr :: "class_def \<Rightarrow> string \<Rightarrow> string option" where
  "class_attr c name =
     (if name \<in> set (class_fields c) \<or> name \<in> set (class_methods c) then Some name else None)"

text \<open>
  The dict \<open>data\<close> that \<open>to_json\<close> of the first \<open>ComparisonReport\<close> builds and hands to
  \<open>json.dumps\<close>, as a JSON value. \<open>asdict\<close> of a record and of a conflict are
  parameters.
\<close>

datatype json = JNull | JInt int | JString string | JArray "json list"
  | JObject "(string \<times> json) list"

definition to_json_data ::
  "('b \<Rightarrow> json) \<Rightarrow> ('c \<Rightarrow> json) \<Rightarrow> 'b list \<Rightarrow> 'b list \<Rightarrow> 'c list \<Rightarrow> 'b list \<Rightarrow> json" where
  "to_json_data asdict_bill asdict_conflict excel_only_v qb_only_v conflicts_v matched_v =
     JObject
       [(''excel_only'', JArray (map asdict_bill excel_only_v)),
        (''qb_only'', JArray (map asdict_bill qb_only_v)),
        (''conflicts'', JArray (map asdict_conflict conflicts_v)),
        (''matched'', JArray (map asdict_bill matched_v)),
        (''summary'', JObject
           [(''total_excel_only'', JInt (int (length excel_only_v))),
            (''total_qb_only'', JInt (int (length qb_only_v))),
            (''total_conflicts'', JInt (int (length conflicts_v))),
            (''total_matched'', JInt (int (length matched_v)))])]"

text \<open>Reading the document: a member of an object, and the length of an array.\<close>

definition json_get :: "json \<Rightarrow> string \<Rightarrow> json option" where
  "json_get j k = (case j of JObject kvs \<Rightarrow> map_of kvs k | _ \<Rightarrow> None)"

definition array_len :: "json \<Rightarrow> json option" where
  "array_len j = (case j of JArray xs \<Rightarrow> Some (JInt (int (length xs))) | _ \<Rightarrow> None)"

section \<open>Ledger gateway (qb_gateway.py)\<close>

text \<open>Exceptions, as values. \<open>RuntimeError\<close> carries its message.\<close>

datatype py_error = RuntimeError string | ValueError string | ParseError | TransportError

text \<open>
  \<open>str.replace(old, new)\<close> for a pattern of one character, and \<open>_escape_xml\<close>, the five
  replacements in the order of the source (the ampersand first).
\<close>

definition replace_char :: "char \<Rightarrow> string \<Rightarrow> string \<Rightarrow> string" where
  "replace_char old new s = concat (map (\<lambda>c. if c = old then new else [c]) s)"

definition escape_xml :: "string \<Rightarrow> string" where
  "escape_xml v =
     replace_char (CHR 0x27) ''&apos;''
       (replace_char (CHR 0x22) ''&quot;''
          (replace_char CHR ''>'' ''&gt;''
             (replace_char CHR ''<'' ''&lt;''
                (replace_char CHR ''&'' ''&amp;'' v))))"

text \<open>
  An element of the parsed response: tag, attributes and child elements. The attributes
  are a dict; the parser admits each name once, so a list of pairs read with \<open>map_of\<close>.
\<close>

datatype xml = Element (tag: string) (attrib: "(string \<times> string) list") (children: "xml list")

text \<open>\<open>elem.get(key, default)\<close>.\<close>

definition get_attr :: "xml \<Rightarrow> string \<Rightarrow> string \<Rightarrow> string" where
  "get_attr e k d = (case map_of (attrib e) k of None \<Rightarrow> d | Some v \<Rightarrow> v)"

text \<open>
  The elements below an element in document order, the element itself left out: what the
  path \<open>.//*\<close> selects.
\<close>

fun descendants :: "xml \<Rightarrow> xml list" where
  "descendants (Element t a cs) = concat (map (\<lambda>c. c # descendants c) cs)"

text \<open>\<open>root.find(".//*[@statusCode]")\<close>: the first such element that has the attribute.\<close>

definition find_status :: "xml \<Rightarrow> xml option" where
  "find_status root_elem =
     List.find (\<lambda>e. map_of (attrib e) ''statusCode'' \<noteq> None) (descendants root_elem)"

text \<open>\<open>str(n)\<close> for an integer: decimal digits, a minus sign for a negative one.\<close>

fun str_nat :: "nat \<Rightarrow> string" where
  "str_nat n = (if n < 10 then [''0123456789'' ! n]
                else str_nat (n div 10) @ [''0123456789'' ! (n mod 10)])"

declare str_nat.simps [simp del]

definition str_int :: "int \<Rightarrow> string" where
  "str_int i = (if i < 0 then CHR ''-'' # str_nat (nat (- i)) else str_nat (nat i))"

text \<open>
  \<open>_parse_response\<close>. Two library functions are parameters: \<open>fromstring\<close> is
  \<open>ET.fromstring\<close> (\<open>None\<close> when the text is not well-formed XML) and \<open>py_int\<close> is
  \<open>int\<close> on a string (\<open>None\<close> when it raises \<open>ValueError\<close>).
\<close>

definition parse_response ::
  "(string \<Rightarrow> xml option) \<Rightarrow> (string \<Rightarrow> int option) \<Rightarrow> string \<Rightarrow> py_error + xml" where
  "parse_response fromstring py_int raw_xml =
     (case fromstring raw_xml of
        None \<Rightarrow> Inl ParseError
      | Some root_elem \<Rightarrow>
          (case find_status root_elem of
             None \<Rightarrow> Inl (RuntimeError ''QuickBooks response missing status information'')
           | Some response \<Rightarrow>
               (case py_int (get_attr response ''statusCode'' ''0'') of
                  None \<Rightarrow> Inl (ValueError (get_attr response ''statusCode'' ''0''))
                | Some status_code \<Rightarrow>
                    (let status_message = get_attr response ''statusMessage'' ''''
                     in if status_code \<notin> {0, 1}
                        then Inl (RuntimeError (''QuickBooks error ('' @ str_int status_code
                                    @ ''): '' @ status_message))
                        else Inr root_elem))))"

text \<open>
  \<open>_send_qbxml\<close>. \<open>session\<close> is the request processor: it opens the connection, begins
  the session, processes the request and closes both again, and gives the raw response, or
  the exception that one of these calls raised.
\<close>

definition send_qbxml ::
  "(string \<Rightarrow> py_error + string) \<Rightarrow> (string \<Rightarrow> xml option) \<Rightarrow> (string \<Rightarrow> int option) \<Rightarrow>
   string \<Rightarrow> py_error + xml" where
  "send_qbxml session fromstring py_int qbxml =
     (case session qbxml of
        Inl err \<Rightarrow> Inl err
      | Inr raw_response \<Rightarrow> parse_response fromstring py_int raw_response)"

text \<open>Truth value of a float, and the test \<open>x <= 0\<close>.\<close>

definition float_truthy :: "pyfloat \<Rightarrow> bool" where
  "float_truthy x = (case x of Finite r \<Rightarrow> r \<noteq> 0 | NegZero \<Rightarrow> False | _ \<Rightarrow> True)"

definition float_le_zero :: "pyfloat \<Rightarrow> bool" where
  "float_le_zero x =
     (case x of Finite r \<Rightarrow> r \<le> 0 | NegZero \<Rightarrow> True | NegInf \<Rightarrow> True | _ \<Rightarrow> False)"

text \<open>\<open>not bill.amount or bill.amount <= 0\<close>, for an optional float.\<close>

definition amount_invalid :: "pyfloat option \<Rightarrow> bool" where
  "amount_invalid a =
     (case a of None \<Rightarrow> True | Some x \<Rightarrow> \<not> float_truthy x \<or> float_le_zero x)"

text \<open>\<open>str(bill.bank_date).split(" ")[0]\<close> for a non-empty date, else the empty string.\<close>

definition txn_date_of :: "string option \<Rightarrow> string" where
  "txn_date_of d = (if truthy d then takeWhile (\<lambda>c. c \<noteq> CHR '' '') (the d) else [])"

text \<open>\<open>x or ''\<close> for an optional string.\<close>

definition or_empty :: "string option \<Rightarrow> string" where
  "or_empty s = (case s of None \<Rightarrow> [] | Some t \<Rightarrow> t)"

text \<open>The request text. \<open>fmt2\<close> is the format \<open>:.2f\<close> of a float.\<close>

definition expense_line_of :: "(pyfloat \<Rightarrow> string) \<Rightarrow> BillRecord \<Rightarrow> string" where
  "expense_line_of fmt2 bill =
     (if truthy (chart_account bill)
      then ''    <ExpenseLineAdd>'' @ [CHR 0x0A]
         @ ''      <AccountRef><FullName>'' @ escape_xml (the (chart_account bill))
         @ ''</FullName></AccountRef>'' @ [CHR 0x0A]
         @ ''      <Amount>'' @ fmt2 (the (amount bill)) @ ''</Amount>'' @ [CHR 0x0A]
         @ ''      <Memo>'' @ escape_xml (or_empty (line_memo bill)) @ ''</Memo>'' @ [CHR 0x0A]
         @ ''    </ExpenseLineAdd>'' @ [CHR 0x0A]
      else [])"

definition bill_add_qbxml :: "(pyfloat \<Rightarrow> string) \<Rightarrow> BillRecord \<Rightarrow> string" where
  "bill_add_qbxml fmt2 bill =
       ''<?xml version='' @ [CHR 0x22] @ ''1.0'' @ [CHR 0x22] @ '' encoding='' @ [CHR 0x22]
     @ ''utf-8'' @ [CHR 0x22] @ ''?>'' @ [CHR 0x0A]
     @ ''<?qbxml version='' @ [CHR 0x22] @ ''16.0'' @ [CHR 0x22] @ ''?>'' @ [CHR 0x0A]
     @ ''<QBXML>'' @ [CHR 0x0A]
     @ ''  <QBXMLMsgsRq onError='' @ [CHR 0x22] @ ''stopOnError'' @ [CHR 0x22] @ ''>'' @ [CHR 0x0A]
     @ ''    <BillAddRq>'' @ [CHR 0x0A]
     @ ''      <BillAdd>'' @ [CHR 0x0A]
     @ ''        <VendorRef><FullName>'' @ escape_xml (the (supplier bill))
     @ ''</FullName></VendorRef>'' @ [CHR 0x0A]
     @ ''        <TxnDate>'' @ txn_date_of (bank_date bill) @ ''</TxnDate>'' @ [CHR 0x0A]
     @ ''        <Memo>'' @ escape_xml (or_empty (memo bill)) @ ''</Memo>'' @ [CHR 0x0A]
     @ expense_line_of fmt2 bill
     @ ''      </BillAdd>'' @ [CHR 0x0A]
     @ ''    </BillAddRq>'' @ [CHR 0x0A]
     @ ''  </QBXMLMsgsRq>'' @ [CHR 0x0A]
     @ ''</QBXML>''"

text \<open>
  What a call of \<open>add_bill_to_qb\<close> leaves behind: the value it returns (\<open>None\<close> is
  Python's \<open>None\<close>, also what a function returns that ends without a \<open>return\<close>), the
  record it was given as the call leaves it (the function assigns to its attribute
  \<open>added_to_qb\<close>), and the requests it handed to the session.
\<close>

record add_outcome =
  returned :: "BillRecord option"
  bill_after :: BillRecord
  requests :: "string list"

text \<open>
  \<open>add_bill_to_qb\<close>. The two validations return the record; the \<open>try\<close> block sets the
  flag and has no \<open>return\<close>; the \<open>except\<close> block clears the flag and ends with
  \<open>return bill\<close>, which the source indents into that block.
\<close>

definition add_bill_to_qb ::
  "(string \<Rightarrow> py_error + string) \<Rightarrow> (string \<Rightarrow> xml option) \<Rightarrow> (string \<Rightarrow> int option) \<Rightarrow>
   (pyfloat \<Rightarrow> string) \<Rightarrow> BillRecord \<Rightarrow> add_outcome" where
  "add_bill_to_qb session fromstring py_int fmt2 bill =
     (if \<not> truthy (supplier bill)
      then \<lparr>returned = Some bill, bill_after = bill, requests = []\<rparr>
      else if amount_invalid (amount bill)
      then \<lparr>returned = Some bill, bill_after = bill, requests = []\<rparr>
      else (let qbxml = bill_add_qbxml fmt2 bill
            in case send_qbxml session fromstring py_int qbxml of
                 Inr response \<Rightarrow>
                   \<lparr>returned = None, bill_after = bill\<lparr>added_to_qb := True\<rparr>,
                    requests = [qbxml]\<rparr>
               | Inl e \<Rightarrow>
                   \<lparr>returned = Some (bill\<lparr>added_to_qb := False\<rparr>),
                    bill_after = bill\<lparr>added_to_qb := False\<rparr>,
                    requests = [qbxml]\<rparr>))"

section \<open>Write-back loop (main.py)\<close>

text \<open>
  Step 4 of the script: for each record of \<open>excel_only\<close>, call \<open>add_bill_to_qb\<close>, drop
  what it returns, and set \<open>added_to_qb\<close> on the record. The result is the list of the
  records as the loop leaves them.
\<close>

definition write_back ::
  "(string \<Rightarrow> py_error + string) \<Rightarrow> (string \<Rightarrow> xml option) \<Rightarrow> (string \<Rightarrow> int option) \<Rightarrow>
   (pyfloat \<Rightarrow> string) \<Rightarrow> BillRecord list \<Rightarrow> BillRecord list" where
  "write_back session fromstring py_int fmt2 bills =
     map (\<lambda>bill. (bill_after (add_bill_to_qb session fromstring py_int fmt2 bill))
                   \<lparr>added_to_qb := True\<rparr>) bills"

section \<open>Spreadsheet reader (excel_reader.py)\<close>














section \<open>Properties of the index\<close>

lemma index_bills_Nil: "index_bills [] = Map.empty"
  by (simp add: index_bills_def)

lemma index_bills_snoc: "index_bills (bs @ [b]) = (index_bills bs)(record_id b \<mapsto> b)"
  by (simp add: index_bills_def)

lemma dom_index_bills_snoc:
  "dom (index_bills (bs @ [b])) = insert (record_id b) (dom (index_bills bs))"
  by (simp add: index_bills_snoc)

lemma dom_index_bills: "dom (index_bills bs) = record_id ` set bs"
proof (induction bs rule: rev_induct)
  case Nil
  show ?case by (simp add: index_bills_Nil)
next
  case (snoc b bs)
  have "dom (index_bills (bs @ [b])) = insert (record_id b) (dom (index_bills bs))"
    by (rule dom_index_bills_snoc)
  also have "\<dots> = insert (record_id b) (record_id ` set bs)"
    by (simp only: snoc.IH)
  finally show ?case by simp
qed

lemma index_bills_SomeD:
  "index_bills bs rid = Some b \<Longrightarrow> b \<in> set bs \<and> record_id b = rid"
  by (induction bs rule: rev_induct) (auto simp: index_bills_Nil index_bills_snoc split: if_splits)

lemma index_bills_None: "index_bills bs rid = None \<longleftrightarrow> rid \<notin> record_id ` set bs"
proof -
  have "index_bills bs rid = None \<longleftrightarrow> rid \<notin> dom (index_bills bs)"
    by (simp add: domIff)
  then show ?thesis by (simp only: dom_index_bills)
qed

lemma index_bills_last: "index_bills bs rid = last_with_id rid bs"
proof (induction bs rule: rev_induct)
  case Nil
  show ?case by (simp add: index_bills_Nil last_with_id_def)
next
  case (snoc b bs)
  show ?case
  proof (cases "record_id b = rid")
    case True
    then show ?thesis
      by (simp add: index_bills_snoc last_with_id_def)
  next
    case False
    with snoc show ?thesis
      by (simp add: index_bills_snoc last_with_id_def)
  qed
qed

lemma index_bills_distinct:
  "distinct (map record_id bs) \<Longrightarrow> b \<in> set bs \<Longrightarrow> index_bills bs (record_id b) = Some b"
  by (induction bs rule: rev_induct) (auto simp: index_bills_Nil index_bills_snoc image_iff)

lemma all_ids_order_code:
  "all_ids_order ids A B \<longleftrightarrow>
     distinct ids \<and> set ids = set (map record_id A) \<union> set (map record_id B)"
  by (simp add: all_ids_order_def dom_index_bills)

lemma all_ids_orderD:
  "all_ids_order ids A B \<Longrightarrow> set ids = record_id ` set A \<union> record_id ` set B"
  by (simp add: all_ids_order_def dom_index_bills)

section \<open>The three buckets, element by element\<close>

lemma excel_only_foldl:
  "e \<in> set (excel_only (foldl (compare_step sf rb ed qd) rep ids)) \<longleftrightarrow>
     e \<in> set (excel_only rep) \<or> (\<exists>rid\<in>set ids. ed rid = Some e \<and> qd rid = None)"
  by (induction ids arbitrary: rep) (auto simp: compare_step_def split: option.splits)

lemma qb_only_foldl:
  "q \<in> set (qb_only (foldl (compare_step sf rb ed qd) rep ids)) \<longleftrightarrow>
     q \<in> set (qb_only rep) \<or> (\<exists>rid\<in>set ids. ed rid = None \<and> qd rid = Some q)"
  by (induction ids arbitrary: rep) (auto simp: compare_step_def split: option.splits)

lemma conflicts_foldl:
  "c \<in> set (conflicts (foldl (compare_step sf rb ed qd) rep ids)) \<longleftrightarrow>
     c \<in> set (conflicts rep) \<or>
     (\<exists>rid\<in>set ids. \<exists>e q. ed rid = Some e \<and> qd rid = Some q \<and> mismatch_fields sf e q \<noteq> [] \<and>
        c = \<lparr>conflict_id = rid, excel_name = Some (rb e), qb_name = Some (rb q),
             reason = join '', '' (mismatch_fields sf e q)\<rparr>)"
  by (induction ids arbitrary: rep) (auto simp: compare_step_def split: option.splits)

lemma excel_only_compare:
  "e \<in> set (excel_only (compare_bills sf rb ids A B)) \<longleftrightarrow>
     (\<exists>rid\<in>set ids. index_bills A rid = Some e \<and> index_bills B rid = None)"
  by (simp add: compare_bills_def excel_only_foldl)

lemma qb_only_compare:
  "q \<in> set (qb_only (compare_bills sf rb ids A B)) \<longleftrightarrow>
     (\<exists>rid\<in>set ids. index_bills A rid = None \<and> index_bills B rid = Some q)"
  by (simp add: compare_bills_def qb_only_foldl)

lemma conflicts_compare:
  "c \<in> set (conflicts (compare_bills sf rb ids A B)) \<longleftrightarrow>
     (\<exists>rid\<in>set ids. \<exists>e q. index_bills A rid = Some e \<and> index_bills B rid = Some q \<and>
        mismatch_fields sf e q \<noteq> [] \<and>
        c = \<lparr>conflict_id = rid, excel_name = Some (rb e), qb_name = Some (rb q),
             reason = join '', '' (mismatch_fields sf e q)\<rparr>)"
  by (simp add: compare_bills_def conflicts_foldl)

lemmas compare_eval = compare_bills_def index_bills_def compare_step_def mismatch_fields_def
  truthy_def str_amount_def

lemma indexed_ids: "record_id ` {a \<in> set A. index_bills A (record_id a) = Some a} = record_id ` set A"
proof
  show "record_id ` {a \<in> set A. index_bills A (record_id a) = Some a} \<subseteq> record_id ` set A"
    by auto
  show "record_id ` set A \<subseteq> record_id ` {a \<in> set A. index_bills A (record_id a) = Some a}"
  proof
    fix rid assume "rid \<in> record_id ` set A"
    then have "rid \<in> dom (index_bills A)" by (simp add: dom_index_bills)
    then obtain a where a: "index_bills A rid = Some a" by auto
    then have "a \<in> set A" "record_id a = rid" using index_bills_SomeD by blast+
    with a show "rid \<in> record_id ` {a \<in> set A. index_bills A (record_id a) = Some a}"
      by force
  qed
qed

section \<open>Disjoint id sets\<close>

text \<open>
  Claim C1, as the code has it. When no id occurs in both lists, \<open>excel_only\<close> holds
  exactly the records that the index of the first list keeps (for each id the last record
  of the list with that id), \<open>qb_only\<close> the same for the second list, every id of either
  list is present in its bucket, and there is no conflict. A record that a later record of
  the same list overwrites is in no bucket.
\<close>

theorem compare_bills_disjoint:
  assumes ord: "all_ids_order ids A B"
    and disj: "record_id ` set A \<inter> record_id ` set B = {}"
  shows "set (excel_only (compare_bills sf rb ids A B)) =
           {a \<in> set A. index_bills A (record_id a) = Some a} \<and>
         set (qb_only (compare_bills sf rb ids A B)) =
           {b \<in> set B. index_bills B (record_id b) = Some b} \<and>
         record_id ` set (excel_only (compare_bills sf rb ids A B)) = record_id ` set A \<and>
         record_id ` set (qb_only (compare_bills sf rb ids A B)) = record_id ` set B \<and>
         conflicts (compare_bills sf rb ids A B) = []"
proof -
  let ?r = "compare_bills sf rb ids A B"
  have ids: "set ids = record_id ` set A \<union> record_id ` set B"
    using ord by (rule all_ids_orderD)
  have ex: "set (excel_only ?r) = {a \<in> set A. index_bills A (record_id a) = Some a}"
  proof (rule set_eqI)
    fix a
    show "a \<in> set (excel_only ?r) \<longleftrightarrow> a \<in> {a \<in> set A. index_bills A (record_id a) = Some a}"
    proof
      assume "a \<in> set (excel_only ?r)"
      then obtain rid where "index_bills A rid = Some a"
        by (auto simp: excel_only_compare)
      then show "a \<in> {a \<in> set A. index_bills A (record_id a) = Some a}"
        using index_bills_SomeD by blast
    next
      assume "a \<in> {a \<in> set A. index_bills A (record_id a) = Some a}"
      then have a: "a \<in> set A" "index_bills A (record_id a) = Some a" by auto
      have "record_id a \<in> set ids" using a(1) ids by auto
      moreover have "index_bills B (record_id a) = None"
        using a(1) disj by (auto simp: index_bills_None)
      ultimately show "a \<in> set (excel_only ?r)"
        using a(2) by (auto simp: excel_only_compare)
    qed
  qed
  have qb: "set (qb_only ?r) = {b \<in> set B. index_bills B (record_id b) = Some b}"
  proof (rule set_eqI)
    fix b
    show "b \<in> set (qb_only ?r) \<longleftrightarrow> b \<in> {b \<in> set B. index_bills B (record_id b) = Some b}"
    proof
      assume "b \<in> set (qb_only ?r)"
      then obtain rid where "index_bills B rid = Some b"
        by (auto simp: qb_only_compare)
      then show "b \<in> {b \<in> set B. index_bills B (record_id b) = Some b}"
        using index_bills_SomeD by blast
    next
      assume "b \<in> {b \<in> set B. index_bills B (record_id b) = Some b}"
      then have b: "b \<in> set B" "index_bills B (record_id b) = Some b" by auto
      have "record_id b \<in> set ids" using b(1) ids by auto
      moreover have "index_bills A (record_id b) = None"
        using b(1) disj by (auto simp: index_bills_None)
      ultimately show "b \<in> set (qb_only ?r)"
        using b(2) by (auto simp: qb_only_compare)
    qed
  qed
  have "c \<notin> set (conflicts ?r)" for c
  proof
    assume "c \<in> set (conflicts ?r)"
    then obtain rid e q where "index_bills A rid = Some e" "index_bills B rid = Some q"
      by (auto simp: conflicts_compare)
    then have "rid \<in> record_id ` set A" "rid \<in> record_id ` set B"
      using index_bills_SomeD by blast+
    with disj show False by auto
  qed
  then have "conflicts ?r = []" by (cases "conflicts ?r") auto
  with ex qb indexed_ids [of A] indexed_ids [of B] show ?thesis by simp
qed

theorem compare_bills_disjoint_witness:
  "let A = [(BillRecord_init ''1'')\<lparr>supplier := Some ''Acme''\<rparr>];
       B = [(BillRecord_init ''2'')\<lparr>source := ''quickbooks''\<rparr>];
       r = compare_bills (\<lambda>x. ''0.0'') record_id [''1'', ''2''] A B
   in all_ids_order [''1'', ''2''] A B \<and>
      record_id ` set A \<inter> record_id ` set B = {} \<and>
      excel_only r = A \<and> qb_only r = B \<and> conflicts r = []"
proof -
  let ?A = "[(BillRecord_init ''1'')\<lparr>supplier := Some ''Acme''\<rparr>]"
  let ?B = "[(BillRecord_init ''2'')\<lparr>source := ''quickbooks''\<rparr>]"
  let ?r = "compare_bills (\<lambda>x. ''0.0'') record_id [''1'', ''2''] ?A ?B"
  have ord: "all_ids_order [''1'', ''2''] ?A ?B"
    by (auto simp: all_ids_order_code)
  have disj: "record_id ` set ?A \<inter> record_id ` set ?B = {}"
    by simp
  have "conflicts ?r = []"
    using compare_bills_disjoint [OF ord disj, of "\<lambda>x. ''0.0''" record_id] by (elim conjE)
  moreover have "excel_only ?r = ?A" "qb_only ?r = ?B"
    by (simp_all add: compare_eval)
  ultimately show ?thesis
    unfolding Let_def using ord disj by blast
qed

text \<open>
  The claim as it is worded fails when an id repeats inside one list: the first list below
  holds two records with id 1, the id sets are disjoint, and the first of the two records
  is not in \<open>excel_only\<close>, which holds the second one only.
\<close>

theorem compare_bills_disjoint_counterexample:
  "let a1 = (BillRecord_init ''1'')\<lparr>supplier := Some ''Acme''\<rparr>;
       a2 = (BillRecord_init ''1'')\<lparr>supplier := Some ''Bolt''\<rparr>;
       B = [(BillRecord_init ''2'')\<lparr>source := ''quickbooks''\<rparr>];
       r = compare_bills (\<lambda>x. ''0.0'') record_id [''1'', ''2''] [a1, a2] B
   in all_ids_order [''1'', ''2''] [a1, a2] B \<and>
      record_id ` set [a1, a2] \<inter> record_id ` set B = {} \<and>
      a1 \<in> set [a1, a2] \<and> excel_only r = [a2] \<and> a1 \<notin> set (excel_only r)"
proof -
  let ?a1 = "(BillRecord_init ''1'')\<lparr>supplier := Some ''Acme''\<rparr>"
  let ?a2 = "(BillRecord_init ''1'')\<lparr>supplier := Some ''Bolt''\<rparr>"
  let ?B = "[(BillRecord_init ''2'')\<lparr>source := ''quickbooks''\<rparr>]"
  let ?r = "compare_bills (\<lambda>x. ''0.0'') record_id [''1'', ''2''] [?a1, ?a2] ?B"
  have ord: "all_ids_order [''1'', ''2''] [?a1, ?a2] ?B"
    by (auto simp: all_ids_order_code)
  have disj: "record_id ` set [?a1, ?a2] \<inter> record_id ` set ?B = {}"
    by simp
  have ev: "excel_only ?r = [?a2]"
    by (simp add: compare_eval)
  have "?a1 \<notin> set (excel_only ?r)"
    unfolding ev by simp
  with ord disj ev show ?thesis
    unfolding Let_def by simp
qed

section \<open>Records that share an id\<close>

text \<open>
  The pair that the loop compares for an id is the pair the two indexes hold for it. With
  ids unique inside each list these are any two records with the same id
  (\<open>index_bills_distinct\<close>); with a repeated id, the last record of each list
  (\<open>index_bills_last\<close>).
\<close>

lemma conflict_for_id:
  assumes ord: "all_ids_order ids A B"
    and e: "index_bills A rid = Some e" and q: "index_bills B rid = Some q"
  shows "c \<in> set (conflicts (compare_bills sf rb ids A B)) \<and> conflict_id c = rid \<longleftrightarrow>
           mismatch_fields sf e q \<noteq> [] \<and>
           c = \<lparr>conflict_id = rid, excel_name = Some (rb e), qb_name = Some (rb q),
                reason = join '', '' (mismatch_fields sf e q)\<rparr>"
proof -
  have "rid \<in> set ids"
    using ord e index_bills_SomeD [OF e] by (auto simp: all_ids_orderD)
  then show ?thesis
    using e q by (auto simp: conflicts_compare)
qed

lemma mismatch_fields_Nil:
  "mismatch_fields sf e q = [] \<longleftrightarrow>
     \<not> (line_memo e = Some [] \<and> line_memo q = Some [] \<and> memo e \<noteq> memo q) \<and>
     \<not> (truthy (line_memo e) \<and> truthy (line_memo q) \<and> line_memo e \<noteq> line_memo q) \<and>
     supplier e = supplier q \<and>
     str_amount sf (amount e) = str_amount sf (amount q) \<and>
     chart_account e = chart_account q"
  by (simp add: mismatch_fields_def)

lemma mismatch_fields_sym: "mismatch_fields sf q e = mismatch_fields sf e q"
  by (auto simp: mismatch_fields_def)

text \<open>
  Claim C2. For the pair of records \<open>e\<close>, \<open>q\<close> that share the id \<open>rid\<close>, the
  report holds a conflict for \<open>rid\<close> exactly when one of the five field rules finds a
  difference: the memo rule (both \<open>line_memo\<close> empty, \<open>memo\<close> differs), the line-memo rule
  (both \<open>line_memo\<close> non-empty and different), supplier, amount in its string form, chart
  account. In particular there is no conflict when supplier, amount and chart account are
  identical and so is every memo field whose rule applies.
\<close>

theorem compare_bills_conflict_iff:
  assumes ord: "all_ids_order ids A B"
    and e: "index_bills A rid = Some e" and q: "index_bills B rid = Some q"
  shows "((\<exists>c\<in>set (conflicts (compare_bills sf rb ids A B)). conflict_id c = rid) \<longleftrightarrow>
            (line_memo e = Some [] \<and> line_memo q = Some [] \<and> memo e \<noteq> memo q) \<or>
            (truthy (line_memo e) \<and> truthy (line_memo q) \<and> line_memo e \<noteq> line_memo q) \<or>
            supplier e \<noteq> supplier q \<or>
            str_amount sf (amount e) \<noteq> str_amount sf (amount q) \<or>
            chart_account e \<noteq> chart_account q) \<and>
         (supplier e = supplier q \<and> amount e = amount q \<and> chart_account e = chart_account q \<and>
          (line_memo e = Some [] \<and> line_memo q = Some [] \<longrightarrow> memo e = memo q) \<and>
          (truthy (line_memo e) \<and> truthy (line_memo q) \<longrightarrow> line_memo e = line_memo q) \<longrightarrow>
            \<not> (\<exists>c\<in>set (conflicts (compare_bills sf rb ids A B)). conflict_id c = rid))"
proof -
  let ?r = "compare_bills sf rb ids A B"
  have iff: "(\<exists>c\<in>set (conflicts ?r). conflict_id c = rid) \<longleftrightarrow> mismatch_fields sf e q \<noteq> []"
    using conflict_for_id [OF ord e q, of _ sf rb] by blast
  show ?thesis
    unfolding iff mismatch_fields_Nil by auto
qed

theorem compare_bills_conflict_iff_witness:
  "let a = (BillRecord_init ''1'')\<lparr>supplier := Some ''Acme'', amount := Some (Finite 100)\<rparr>;
       b = (BillRecord_init ''1'')\<lparr>supplier := Some ''Acme Corp'', amount := Some (Finite 100),
              source := ''quickbooks''\<rparr>;
       r = compare_bills (\<lambda>x. ''100.0'') record_id [''1''] [a] [b]
   in all_ids_order [''1''] [a] [b] \<and> index_bills [a] ''1'' = Some a \<and>
      index_bills [b] ''1'' = Some b \<and> supplier a \<noteq> supplier b \<and>
      (\<exists>c\<in>set (conflicts r). conflict_id c = ''1'') \<and>
      conflicts r = [\<lparr>conflict_id = ''1'', excel_name = Some ''1'', qb_name = Some ''1'',
                      reason = ''Supplier/Vendor mismatch''\<rparr>]"
proof -
  let ?a = "(BillRecord_init ''1'')\<lparr>supplier := Some ''Acme'', amount := Some (Finite 100)\<rparr>"
  let ?b = "(BillRecord_init ''1'')\<lparr>supplier := Some ''Acme Corp'', amount := Some (Finite 100),
              source := ''quickbooks''\<rparr>"
  let ?r = "compare_bills (\<lambda>x. ''100.0'') record_id [''1''] [?a] [?b]"
  have ord: "all_ids_order [''1''] [?a] [?b]"
    by (simp add: all_ids_order_code)
  have a: "index_bills [?a] ''1'' = Some ?a" and b: "index_bills [?b] ''1'' = Some ?b"
    by (simp_all add: index_bills_def)
  have sup: "supplier ?a \<noteq> supplier ?b"
    by simp
  have "\<exists>c\<in>set (conflicts ?r). conflict_id c = ''1''"
    using compare_bills_conflict_iff [OF ord a b, of "\<lambda>x. ''100.0''" record_id, THEN conjunct1] sup
    by blast
  moreover have "conflicts ?r = [\<lparr>conflict_id = ''1'', excel_name = Some ''1'',
      qb_name = Some ''1'', reason = ''Supplier/Vendor mismatch''\<rparr>]"
    by (simp add: compare_eval)
  ultimately show ?thesis
    unfolding Let_def using ord a b sup by blast
qed

text \<open>
  Claim C3. When supplier, chart account and the applicable memo fields of the pair are
  equal, the amount alone decides, and it is judged on the strings \<open>str(amount)\<close>: if the
  two strings differ there is a conflict for the id and its reason is the single label
  \<open>Amount mismatch\<close>; if the two strings are equal there is no conflict, whatever the
  amounts are as numbers.
\<close>

theorem compare_bills_amount_only:
  assumes ord: "all_ids_order ids A B"
    and e: "index_bills A rid = Some e" and q: "index_bills B rid = Some q"
    and sup: "supplier e = supplier q" and acct: "chart_account e = chart_account q"
    and mem: "line_memo e = Some [] \<and> line_memo q = Some [] \<longrightarrow> memo e = memo q"
    and lmem: "truthy (line_memo e) \<and> truthy (line_memo q) \<longrightarrow> line_memo e = line_memo q"
  shows "(str_amount sf (amount e) \<noteq> str_amount sf (amount q) \<longrightarrow>
            (\<exists>c\<in>set (conflicts (compare_bills sf rb ids A B)). conflict_id c = rid) \<and>
            (\<forall>c\<in>set (conflicts (compare_bills sf rb ids A B)).
               conflict_id c = rid \<longrightarrow> reason c = ''Amount mismatch'')) \<and>
         (str_amount sf (amount e) = str_amount sf (amount q) \<longrightarrow>
            \<not> (\<exists>c\<in>set (conflicts (compare_bills sf rb ids A B)). conflict_id c = rid))"
proof -
  let ?r = "compare_bills sf rb ids A B"
  have mf: "mismatch_fields sf e q =
      (if str_amount sf (amount e) \<noteq> str_amount sf (amount q) then [''Amount mismatch''] else [])"
    using sup acct mem lmem by (auto simp: mismatch_fields_def)
  have c: "c \<in> set (conflicts ?r) \<and> conflict_id c = rid \<longleftrightarrow>
           mismatch_fields sf e q \<noteq> [] \<and>
           c = \<lparr>conflict_id = rid, excel_name = Some (rb e), qb_name = Some (rb q),
                reason = join '', '' (mismatch_fields sf e q)\<rparr>" for c
    by (rule conflict_for_id [OF ord e q])
  show ?thesis
  proof (cases "str_amount sf (amount e) = str_amount sf (amount q)")
    case True
    then have "mismatch_fields sf e q = []" using mf by simp
    with c have "\<not> (\<exists>c\<in>set (conflicts ?r). conflict_id c = rid)" by blast
    with True show ?thesis by simp
  next
    case False
    then have m: "mismatch_fields sf e q = [''Amount mismatch'']" using mf by simp
    have ex: "\<exists>c\<in>set (conflicts ?r). conflict_id c = rid"
      using c [of "\<lparr>conflict_id = rid, excel_name = Some (rb e), qb_name = Some (rb q),
                reason = join '', '' (mismatch_fields sf e q)\<rparr>"] m
      by (intro bexI [where x = "\<lparr>conflict_id = rid, excel_name = Some (rb e), qb_name = Some (rb q),
                reason = join '', '' (mismatch_fields sf e q)\<rparr>"]) simp_all
    have "reason c = ''Amount mismatch''" if "c \<in> set (conflicts ?r)" "conflict_id c = rid" for c
    proof -
      from that c [of c] have "c = \<lparr>conflict_id = rid, excel_name = Some (rb e), qb_name = Some (rb q),
                reason = join '', '' (mismatch_fields sf e q)\<rparr>" by blast
      then show ?thesis using m by simp
    qed
    with ex False show ?thesis by blast
  qed
qed

theorem compare_bills_amount_only_witness:
  "let sf = (\<lambda>x. if x = Finite 100 then ''100.0'' else ''250.0'');
       a = (BillRecord_init ''7'')\<lparr>supplier := Some ''Acme'', amount := Some (Finite 100),
              chart_account := Some ''Travel'', memo := Some ''May'', line_memo := Some ''''\<rparr>;
       b = (BillRecord_init ''7'')\<lparr>supplier := Some ''Acme'', amount := Some (Finite 250),
              chart_account := Some ''Travel'', memo := Some ''May'', line_memo := Some '''',
              source := ''quickbooks''\<rparr>;
       r = compare_bills sf record_id [''7''] [a] [b]
   in all_ids_order [''7''] [a] [b] \<and> index_bills [a] ''7'' = Some a \<and>
      index_bills [b] ''7'' = Some b \<and> supplier a = supplier b \<and>
      chart_account a = chart_account b \<and> memo a = memo b \<and> line_memo a = line_memo b \<and>
      str_amount sf (amount a) \<noteq> str_amount sf (amount b) \<and>
      (\<exists>c\<in>set (conflicts r). conflict_id c = ''7'') \<and>
      conflicts r = [\<lparr>conflict_id = ''7'', excel_name = Some ''7'', qb_name = Some ''7'',
                      reason = ''Amount mismatch''\<rparr>]"
proof -
  let ?sf = "\<lambda>x. if x = Finite 100 then ''100.0'' else ''250.0''"
  let ?a = "(BillRecord_init ''7'')\<lparr>supplier := Some ''Acme'', amount := Some (Finite 100),
              chart_account := Some ''Travel'', memo := Some ''May'', line_memo := Some ''''\<rparr>"
  let ?b = "(BillRecord_init ''7'')\<lparr>supplier := Some ''Acme'', amount := Some (Finite 250),
              chart_account := Some ''Travel'', memo := Some ''May'', line_memo := Some '''',
              source := ''quickbooks''\<rparr>"
  let ?r = "compare_bills ?sf record_id [''7''] [?a] [?b]"
  have ord: "all_ids_order [''7''] [?a] [?b]"
    by (simp add: all_ids_order_code)
  have a: "index_bills [?a] ''7'' = Some ?a" and b: "index_bills [?b] ''7'' = Some ?b"
    by (simp_all add: index_bills_def)
  have sup: "supplier ?a = supplier ?b" and acct: "chart_account ?a = chart_account ?b"
    and mem: "memo ?a = memo ?b" and lmem: "line_memo ?a = line_memo ?b"
    by simp_all
  have amt: "str_amount ?sf (amount ?a) \<noteq> str_amount ?sf (amount ?b)"
    by (simp add: str_amount_def)
  have "\<exists>c\<in>set (conflicts ?r). conflict_id c = ''7''"
    using compare_bills_amount_only [OF ord a b sup acct, of ?sf record_id, THEN conjunct1]
      mem lmem amt by blast
  moreover have "conflicts ?r = [\<lparr>conflict_id = ''7'', excel_name = Some ''7'',
      qb_name = Some ''7'', reason = ''Amount mismatch''\<rparr>]"
    by (simp add: compare_eval)
  ultimately show ?thesis
    unfolding Let_def using ord a b sup acct mem lmem amt by blast
qed

text \<open>
  A \<open>line_memo\<close> of \<open>None\<close> is neither the empty string nor true: when one side has
  none, neither memo rule applies.
\<close>

lemma mismatch_fields_no_line_memo:
  "line_memo e = None \<or> line_memo q = None \<Longrightarrow>
     ''Memo mismatch'' \<notin> set (mismatch_fields sf e q) \<and>
     ''LineMemo mismatch'' \<notin> set (mismatch_fields sf e q)"
  by (auto simp: mismatch_fields_def truthy_def)

text \<open>
  Claim C4. The reason of the conflict for an id is the labels of \<open>mismatch_fields\<close>
  joined by a comma and a space, and a conflict exists as soon as there is a label. Among
  these labels: \<open>Memo mismatch\<close> is present when both \<open>line_memo\<close> are the empty string
  and the memos differ; it is absent as soon as one \<open>line_memo\<close> is non-empty, whatever
  the memos are; \<open>LineMemo mismatch\<close> is present exactly when both \<open>line_memo\<close> are
  non-empty and differ. (Labels are compared as list elements: as a substring,
  \<open>Memo mismatch\<close> also occurs inside \<open>LineMemo mismatch\<close>.)
\<close>

theorem compare_bills_memo_rules:
  assumes ord: "all_ids_order ids A B"
    and e: "index_bills A rid = Some e" and q: "index_bills B rid = Some q"
  shows "(\<forall>c\<in>set (conflicts (compare_bills sf rb ids A B)).
            conflict_id c = rid \<longrightarrow> reason c = join '', '' (mismatch_fields sf e q)) \<and>
         (mismatch_fields sf e q \<noteq> [] \<longrightarrow>
            (\<exists>c\<in>set (conflicts (compare_bills sf rb ids A B)). conflict_id c = rid)) \<and>
         (line_memo e = Some [] \<and> line_memo q = Some [] \<and> memo e \<noteq> memo q \<longrightarrow>
            ''Memo mismatch'' \<in> set (mismatch_fields sf e q)) \<and>
         (truthy (line_memo e) \<or> truthy (line_memo q) \<longrightarrow>
            ''Memo mismatch'' \<notin> set (mismatch_fields sf e q)) \<and>
         (''LineMemo mismatch'' \<in> set (mismatch_fields sf e q) \<longleftrightarrow>
            truthy (line_memo e) \<and> truthy (line_memo q) \<and> line_memo e \<noteq> line_memo q)"
proof -
  let ?r = "compare_bills sf rb ids A B"
  let ?c = "\<lparr>conflict_id = rid, excel_name = Some (rb e), qb_name = Some (rb q),
             reason = join '', '' (mismatch_fields sf e q)\<rparr>"
  have c: "c \<in> set (conflicts ?r) \<and> conflict_id c = rid \<longleftrightarrow>
           mismatch_fields sf e q \<noteq> [] \<and> c = ?c" for c
    by (rule conflict_for_id [OF ord e q])
  have 1: "\<forall>c\<in>set (conflicts ?r). conflict_id c = rid \<longrightarrow>
             reason c = join '', '' (mismatch_fields sf e q)"
  proof (intro ballI impI)
    fix c assume "c \<in> set (conflicts ?r)" "conflict_id c = rid"
    with c [of c] have "c = ?c" by blast
    then show "reason c = join '', '' (mismatch_fields sf e q)" by simp
  qed
  have 2: "mismatch_fields sf e q \<noteq> [] \<longrightarrow> (\<exists>c\<in>set (conflicts ?r). conflict_id c = rid)"
  proof
    assume "mismatch_fields sf e q \<noteq> []"
    with c [of ?c] have "?c \<in> set (conflicts ?r)" "conflict_id ?c = rid" by simp_all
    then show "\<exists>c\<in>set (conflicts ?r). conflict_id c = rid" by blast
  qed
  have 3: "line_memo e = Some [] \<and> line_memo q = Some [] \<and> memo e \<noteq> memo q \<longrightarrow>
            ''Memo mismatch'' \<in> set (mismatch_fields sf e q)"
    by (simp add: mismatch_fields_def)
  have 4: "truthy (line_memo e) \<or> truthy (line_memo q) \<longrightarrow>
            ''Memo mismatch'' \<notin> set (mismatch_fields sf e q)"
    by (auto simp: mismatch_fields_def truthy_def)
  have 5: "''LineMemo mismatch'' \<in> set (mismatch_fields sf e q) \<longleftrightarrow>
            truthy (line_memo e) \<and> truthy (line_memo q) \<and> line_memo e \<noteq> line_memo q"
    by (simp add: mismatch_fields_def)
  from 1 2 3 4 5 show ?thesis by blast
qed

theorem compare_bills_memo_rules_witness:
  "let a = (BillRecord_init ''7'')\<lparr>memo := Some ''May'', line_memo := Some ''''\<rparr>;
       b = (BillRecord_init ''7'')\<lparr>memo := Some ''June'', line_memo := Some '''',
              source := ''quickbooks''\<rparr>;
       b' = (BillRecord_init ''7'')\<lparr>memo := Some ''June'', line_memo := Some ''fuel'',
              source := ''quickbooks''\<rparr>
   in all_ids_order [''7''] [a] [b] \<and> index_bills [a] ''7'' = Some a \<and>
      index_bills [b] ''7'' = Some b \<and>
      line_memo a = Some [] \<and> line_memo b = Some [] \<and> memo a \<noteq> memo b \<and>
      ''Memo mismatch'' \<in> set (mismatch_fields (\<lambda>x. ''0.0'') a b) \<and>
      conflicts (compare_bills (\<lambda>x. ''0.0'') record_id [''7''] [a] [b]) =
        [\<lparr>conflict_id = ''7'', excel_name = Some ''7'', qb_name = Some ''7'',
          reason = ''Memo mismatch''\<rparr>] \<and>
      all_ids_order [''7''] [a] [b'] \<and> index_bills [b'] ''7'' = Some b' \<and>
      truthy (line_memo b') \<and>
      ''Memo mismatch'' \<notin> set (mismatch_fields (\<lambda>x. ''0.0'') a b') \<and>
      conflicts (compare_bills (\<lambda>x. ''0.0'') record_id [''7''] [a] [b']) = []"
proof -
  let ?sf = "\<lambda>x::pyfloat. ''0.0''"
  let ?a = "(BillRecord_init ''7'')\<lparr>memo := Some ''May'', line_memo := Some ''''\<rparr>"
  let ?b = "(BillRecord_init ''7'')\<lparr>memo := Some ''June'', line_memo := Some '''',
              source := ''quickbooks''\<rparr>"
  let ?b' = "(BillRecord_init ''7'')\<lparr>memo := Some ''June'', line_memo := Some ''fuel'',
              source := ''quickbooks''\<rparr>"
  have ord: "all_ids_order [''7''] [?a] [?b]" and ord': "all_ids_order [''7''] [?a] [?b']"
    by (simp_all add: all_ids_order_code)
  have a: "index_bills [?a] ''7'' = Some ?a" and b: "index_bills [?b] ''7'' = Some ?b"
    and b': "index_bills [?b'] ''7'' = Some ?b'"
    by (simp_all add: index_bills_def)
  have par: "line_memo ?a = Some [] \<and> line_memo ?b = Some [] \<and> memo ?a \<noteq> memo ?b"
    by simp
  have line: "truthy (line_memo ?b')"
    by (simp add: truthy_def)
  have 1: "''Memo mismatch'' \<in> set (mismatch_fields ?sf ?a ?b)"
    using compare_bills_memo_rules [OF ord a b, of ?sf record_id] par by blast
  have 2: "''Memo mismatch'' \<notin> set (mismatch_fields ?sf ?a ?b')"
    using compare_bills_memo_rules [OF ord' a b', of ?sf record_id] line by blast
  have 3: "conflicts (compare_bills ?sf record_id [''7''] [?a] [?b]) =
        [\<lparr>conflict_id = ''7'', excel_name = Some ''7'', qb_name = Some ''7'',
          reason = ''Memo mismatch''\<rparr>]"
    by (simp add: compare_eval)
  have 4: "conflicts (compare_bills ?sf record_id [''7''] [?a] [?b']) = []"
    by (simp add: compare_eval)
  show ?thesis
    unfolding Let_def using ord ord' a b b' par line 1 2 3 4 by blast
qed

section \<open>Exchanging the two lists\<close>

text \<open>
  Claim C5. Comparing \<open>B\<close> with \<open>A\<close> instead of \<open>A\<close> with \<open>B\<close>, in whatever
  order each run visits the ids, exchanges the contents of \<open>excel_only\<close> and
  \<open>qb_only\<close>, and gives the same conflicts (same ids, same reasons) with the two
  recorded sides exchanged.
\<close>

theorem compare_bills_swap:
  assumes ord: "all_ids_order ids A B" and ord': "all_ids_order ids' B A"
  shows "set (excel_only (compare_bills sf rb ids' B A)) =
           set (qb_only (compare_bills sf rb ids A B)) \<and>
         set (qb_only (compare_bills sf rb ids' B A)) =
           set (excel_only (compare_bills sf rb ids A B)) \<and>
         set (conflicts (compare_bills sf rb ids' B A)) =
           swap_sides ` set (conflicts (compare_bills sf rb ids A B))"
proof -
  have ids: "set ids' = set ids"
    using ord ord' by (auto simp: all_ids_orderD)
  have 1: "set (excel_only (compare_bills sf rb ids' B A)) =
           set (qb_only (compare_bills sf rb ids A B))"
    by (rule set_eqI) (auto simp: excel_only_compare qb_only_compare ids)
  have 2: "set (qb_only (compare_bills sf rb ids' B A)) =
           set (excel_only (compare_bills sf rb ids A B))"
    by (rule set_eqI) (auto simp: excel_only_compare qb_only_compare ids)
  have 3: "set (conflicts (compare_bills sf rb ids' B A)) =
           swap_sides ` set (conflicts (compare_bills sf rb ids A B))"
  proof (rule set_eqI)
    fix c
    show "c \<in> set (conflicts (compare_bills sf rb ids' B A)) \<longleftrightarrow>
          c \<in> swap_sides ` set (conflicts (compare_bills sf rb ids A B))"
    proof
      assume "c \<in> set (conflicts (compare_bills sf rb ids' B A))"
      then obtain rid e q where r: "rid \<in> set ids" "index_bills B rid = Some e"
          "index_bills A rid = Some q" "mismatch_fields sf e q \<noteq> []"
          "c = \<lparr>conflict_id = rid, excel_name = Some (rb e), qb_name = Some (rb q),
                reason = join '', '' (mismatch_fields sf e q)\<rparr>"
        by (auto simp: conflicts_compare ids)
      let ?d = "\<lparr>conflict_id = rid, excel_name = Some (rb q), qb_name = Some (rb e),
                reason = join '', '' (mismatch_fields sf q e)\<rparr>"
      have "?d \<in> set (conflicts (compare_bills sf rb ids A B))"
        unfolding conflicts_compare using r(1-4)
        by (intro bexI [of _ rid] exI [of _ q] exI [of _ e]) (simp_all add: mismatch_fields_sym)
      moreover have "c = swap_sides ?d"
        using r(5) by (simp add: swap_sides_def mismatch_fields_sym)
      ultimately show "c \<in> swap_sides ` set (conflicts (compare_bills sf rb ids A B))"
        by (rule rev_image_eqI)
    next
      assume "c \<in> swap_sides ` set (conflicts (compare_bills sf rb ids A B))"
      then obtain d where d: "d \<in> set (conflicts (compare_bills sf rb ids A B))" "c = swap_sides d"
        by auto
      then obtain rid e q where r: "rid \<in> set ids" "index_bills A rid = Some e"
          "index_bills B rid = Some q" "mismatch_fields sf e q \<noteq> []"
          "d = \<lparr>conflict_id = rid, excel_name = Some (rb e), qb_name = Some (rb q),
                reason = join '', '' (mismatch_fields sf e q)\<rparr>"
        by (auto simp: conflicts_compare)
      have "c = \<lparr>conflict_id = rid, excel_name = Some (rb q), qb_name = Some (rb e),
                reason = join '', '' (mismatch_fields sf q e)\<rparr>"
        using d(2) r(5) by (simp add: swap_sides_def mismatch_fields_sym)
      then show "c \<in> set (conflicts (compare_bills sf rb ids' B A))"
        unfolding conflicts_compare ids using r(1-4)
        by (intro bexI [of _ rid] exI [of _ q] exI [of _ e]) (simp_all add: mismatch_fields_sym)
    qed
  qed
  from 1 2 3 show ?thesis by blast
qed

theorem compare_bills_swap_witness:
  "let a1 = BillRecord_init ''1'';
       a2 = (BillRecord_init ''2'')\<lparr>supplier := Some ''Acme''\<rparr>;
       b2 = (BillRecord_init ''2'')\<lparr>supplier := Some ''Bolt'', source := ''quickbooks''\<rparr>;
       b3 = (BillRecord_init ''3'')\<lparr>source := ''quickbooks''\<rparr>;
       r = compare_bills (\<lambda>x. ''0.0'') source [''1'', ''2'', ''3''] [a1, a2] [b2, b3];
       r' = compare_bills (\<lambda>x. ''0.0'') source [''3'', ''2'', ''1''] [b2, b3] [a1, a2]
   in all_ids_order [''1'', ''2'', ''3''] [a1, a2] [b2, b3] \<and>
      all_ids_order [''3'', ''2'', ''1''] [b2, b3] [a1, a2] \<and>
      set (excel_only r') = set (qb_only r) \<and> set (qb_only r') = set (excel_only r) \<and>
      set (conflicts r') = swap_sides ` set (conflicts r) \<and>
      excel_only r = [a1] \<and> qb_only r = [b3] \<and>
      conflicts r = [\<lparr>conflict_id = ''2'', excel_name = Some ''excel'',
                      qb_name = Some ''quickbooks'', reason = ''Supplier/Vendor mismatch''\<rparr>] \<and>
      excel_only r' = [b3] \<and> qb_only r' = [a1] \<and>
      conflicts r' = [\<lparr>conflict_id = ''2'', excel_name = Some ''quickbooks'',
                       qb_name = Some ''excel'', reason = ''Supplier/Vendor mismatch''\<rparr>]"
proof -
  let ?sf = "\<lambda>x::pyfloat. ''0.0''"
  let ?a1 = "BillRecord_init ''1''"
  let ?a2 = "(BillRecord_init ''2'')\<lparr>supplier := Some ''Acme''\<rparr>"
  let ?b2 = "(BillRecord_init ''2'')\<lparr>supplier := Some ''Bolt'', source := ''quickbooks''\<rparr>"
  let ?b3 = "(BillRecord_init ''3'')\<lparr>source := ''quickbooks''\<rparr>"
  let ?r = "compare_bills ?sf source [''1'', ''2'', ''3''] [?a1, ?a2] [?b2, ?b3]"
  let ?r' = "compare_bills ?sf source [''3'', ''2'', ''1''] [?b2, ?b3] [?a1, ?a2]"
  have ord: "all_ids_order [''1'', ''2'', ''3''] [?a1, ?a2] [?b2, ?b3]"
    by (auto simp: all_ids_order_code)
  have ord': "all_ids_order [''3'', ''2'', ''1''] [?b2, ?b3] [?a1, ?a2]"
    by (auto simp: all_ids_order_code)
  note sw = compare_bills_swap [OF ord ord', of ?sf source]
  have 1: "excel_only ?r = [?a1]" "qb_only ?r = [?b3]"
    "conflicts ?r = [\<lparr>conflict_id = ''2'', excel_name = Some ''excel'',
        qb_name = Some ''quickbooks'', reason = ''Supplier/Vendor mismatch''\<rparr>]"
    by (simp_all add: compare_eval)
  have 2: "excel_only ?r' = [?b3]" "qb_only ?r' = [?a1]"
    "conflicts ?r' = [\<lparr>conflict_id = ''2'', excel_name = Some ''quickbooks'',
        qb_name = Some ''excel'', reason = ''Supplier/Vendor mismatch''\<rparr>]"
    by (simp_all add: compare_eval)
  show ?thesis
    unfolding Let_def using ord ord' sw 1 2 by blast
qed

section \<open>Repeated ids\<close>

lemma index_bills_later:
  "record_id b \<notin> record_id ` set ys \<Longrightarrow> index_bills (xs @ b # ys) (record_id b) = Some b"
proof -
  assume "record_id b \<notin> record_id ` set ys"
  then have "\<forall>x\<in>set ys. record_id x \<noteq> record_id b"
    by (metis imageI)
  then have "filter (\<lambda>x. record_id x = record_id b) ys = []"
    by (simp add: filter_empty_conv)
  then show ?thesis
    by (simp add: index_bills_last last_with_id_def)
qed

text \<open>
  Claim C6. The index of a list holds, for each id, the last record of the list with that
  id: a record followed by no record of the same id is the one the index returns for its
  id, whatever precedes it. Every record in \<open>excel_only\<close> or \<open>qb_only\<close>, and both
  sides of every conflict, are such last records.
\<close>

theorem index_last_write_wins:
  "index_bills A rid = last_with_id rid A \<and>
   (record_id b \<notin> record_id ` set ys \<longrightarrow> index_bills (xs @ b # ys) (record_id b) = Some b) \<and>
   (\<forall>e\<in>set (excel_only (compare_bills sf rb ids A B)). last_with_id (record_id e) A = Some e) \<and>
   (\<forall>q\<in>set (qb_only (compare_bills sf rb ids A B)). last_with_id (record_id q) B = Some q) \<and>
   (\<forall>c\<in>set (conflicts (compare_bills sf rb ids A B)).
      \<exists>e q. last_with_id (conflict_id c) A = Some e \<and> last_with_id (conflict_id c) B = Some q \<and>
            excel_name c = Some (rb e) \<and> qb_name c = Some (rb q))"
proof -
  have 1: "index_bills A rid = last_with_id rid A"
    by (rule index_bills_last)
  have 2: "record_id b \<notin> record_id ` set ys \<longrightarrow> index_bills (xs @ b # ys) (record_id b) = Some b"
    using index_bills_later by blast
  have 3: "\<forall>e\<in>set (excel_only (compare_bills sf rb ids A B)). last_with_id (record_id e) A = Some e"
  proof
    fix e assume "e \<in> set (excel_only (compare_bills sf rb ids A B))"
    then obtain r where r: "index_bills A r = Some e" by (auto simp: excel_only_compare)
    then have "record_id e = r" using index_bills_SomeD by blast
    with r show "last_with_id (record_id e) A = Some e" by (simp add: index_bills_last)
  qed
  have 4: "\<forall>q\<in>set (qb_only (compare_bills sf rb ids A B)). last_with_id (record_id q) B = Some q"
  proof
    fix q assume "q \<in> set (qb_only (compare_bills sf rb ids A B))"
    then obtain r where r: "index_bills B r = Some q" by (auto simp: qb_only_compare)
    then have "record_id q = r" using index_bills_SomeD by blast
    with r show "last_with_id (record_id q) B = Some q" by (simp add: index_bills_last)
  qed
  have 5: "\<forall>c\<in>set (conflicts (compare_bills sf rb ids A B)).
      \<exists>e q. last_with_id (conflict_id c) A = Some e \<and> last_with_id (conflict_id c) B = Some q \<and>
            excel_name c = Some (rb e) \<and> qb_name c = Some (rb q)"
    by (auto simp: conflicts_compare index_bills_last)
  from 1 2 3 4 5 show ?thesis by blast
qed

theorem index_last_write_wins_witness:
  "let a1 = (BillRecord_init ''1'')\<lparr>supplier := Some ''Acme''\<rparr>;
       a2 = (BillRecord_init ''1'')\<lparr>supplier := Some ''Bolt''\<rparr>;
       r = compare_bills (\<lambda>x. ''0.0'') record_id [''1''] [a1, a2] []
   in record_id a2 \<notin> record_id ` set [] \<and>
      index_bills ([a1] @ a2 # []) (record_id a2) = Some a2 \<and>
      last_with_id ''1'' [a1, a2] = Some a2 \<and>
      excel_only r = [a2] \<and> a2 \<in> set (excel_only r) \<and>
      last_with_id (record_id a2) [a1, a2] = Some a2"
proof -
  let ?sf = "\<lambda>x::pyfloat. ''0.0''"
  let ?a1 = "(BillRecord_init ''1'')\<lparr>supplier := Some ''Acme''\<rparr>"
  let ?a2 = "(BillRecord_init ''1'')\<lparr>supplier := Some ''Bolt''\<rparr>"
  let ?r = "compare_bills ?sf record_id [''1''] [?a1, ?a2] []"
  note lww = index_last_write_wins [of "[?a1, ?a2]" "''1''" ?a2 "[]" "[?a1]" ?sf record_id "[''1'']" "[]"]
  have no: "record_id ?a2 \<notin> record_id ` set []"
    by simp
  have ev: "excel_only ?r = [?a2]"
    by (simp add: compare_eval)
  then have mem: "?a2 \<in> set (excel_only ?r)"
    by simp
  have 1: "index_bills ([?a1] @ ?a2 # []) (record_id ?a2) = Some ?a2"
    using lww no by blast
  have 2: "last_with_id (record_id ?a2) [?a1, ?a2] = Some ?a2"
    using lww mem by blast
  have 3: "last_with_id ''1'' [?a1, ?a2] = Some ?a2"
    by (simp add: last_with_id_def)
  show ?thesis
    unfolding Let_def using no ev mem 1 2 3 by blast
qed

section \<open>The response parser\<close>

lemma find_status_has_attr:
  "find_status r = Some response \<Longrightarrow> map_of (attrib response) ''statusCode'' \<noteq> None"
  by (auto simp: find_status_def find_Some_iff)

lemma str_int_3120: "str_int 3120 = ''3120''"
  by (simp add: str_int_def str_nat.simps)

text \<open>
  Claim C8. \<open>_parse_response\<close> returns the parsed document exactly when the first element
  below the root that has a \<open>statusCode\<close> attribute carries the code 0 or 1. When that
  code is some other integer it raises \<open>RuntimeError\<close> with a message made of the code
  and the element's \<open>statusMessage\<close>; when no element has the attribute it raises
  \<open>RuntimeError\<close> for the missing status information.
\<close>

theorem parse_response_status:
  "(parse_response fs pint raw = Inr r \<longleftrightarrow>
      (\<exists>response n. fs raw = Some r \<and> find_status r = Some response \<and>
         pint (get_attr response ''statusCode'' ''0'') = Some n \<and> (n = 0 \<or> n = 1))) \<and>
   (fs raw = Some r \<and> find_status r = Some response \<and>
    pint (get_attr response ''statusCode'' ''0'') = Some n \<and> n \<noteq> 0 \<and> n \<noteq> 1 \<longrightarrow>
      parse_response fs pint raw =
        Inl (RuntimeError (''QuickBooks error ('' @ str_int n @ ''): ''
               @ get_attr response ''statusMessage'' ''''))) \<and>
   (fs raw = Some r \<and> find_status r = None \<longrightarrow>
      parse_response fs pint raw =
        Inl (RuntimeError ''QuickBooks response missing status information''))"
  by (auto simp: parse_response_def Let_def split: option.splits)

theorem parse_response_status_witness:
  "let pint = (\<lambda>s. if s = ''0'' then Some 0 else if s = ''3120'' then Some 3120 else None);
       ok = Element ''QBXML'' [] [Element ''QBXMLMsgsRs'' []
              [Element ''BillAddRs'' [(''statusCode'', ''0''), (''statusMessage'', ''Status OK'')] []]];
       bad = Element ''QBXML'' [] [Element ''QBXMLMsgsRs'' []
              [Element ''BillAddRs'' [(''statusCode'', ''3120''),
                 (''statusMessage'', ''Object not found'')] []]];
       none = Element ''QBXML'' [] [Element ''QBXMLMsgsRs'' [] []];
       fs = (\<lambda>s. if s = ''ok'' then Some ok else if s = ''bad'' then Some bad
                  else if s = ''none'' then Some none else None)
   in parse_response fs pint ''ok'' = Inr ok \<and>
      fs ''bad'' = Some bad \<and>
      find_status bad = Some (Element ''BillAddRs'' [(''statusCode'', ''3120''),
                 (''statusMessage'', ''Object not found'')] []) \<and>
      parse_response fs pint ''bad'' = Inl (RuntimeError ''QuickBooks error (3120): Object not found'') \<and>
      fs ''none'' = Some none \<and> find_status none = None \<and>
      parse_response fs pint ''none'' =
        Inl (RuntimeError ''QuickBooks response missing status information'')"
proof -
  let ?pint = "\<lambda>s. if s = ''0'' then Some (0::int) else if s = ''3120'' then Some 3120 else None"
  let ?el = "Element ''BillAddRs'' [(''statusCode'', ''3120''),
                 (''statusMessage'', ''Object not found'')] []"
  let ?ok = "Element ''QBXML'' [] [Element ''QBXMLMsgsRs'' []
              [Element ''BillAddRs'' [(''statusCode'', ''0''), (''statusMessage'', ''Status OK'')] []]]"
  let ?bad = "Element ''QBXML'' [] [Element ''QBXMLMsgsRs'' [] [?el]]"
  let ?none = "Element ''QBXML'' [] [Element ''QBXMLMsgsRs'' [] []]"
  let ?fs = "\<lambda>s. if s = ''ok'' then Some ?ok else if s = ''bad'' then Some ?bad
                  else if s = ''none'' then Some ?none else None"
  have fb: "?fs ''bad'' = Some ?bad" and fn: "?fs ''none'' = Some ?none"
    by simp_all
  have sb: "find_status ?bad = Some ?el" and sn: "find_status ?none = None"
    by (simp_all add: find_status_def)
  have pb: "?pint (get_attr ?el ''statusCode'' ''0'') = Some 3120"
    by (simp add: get_attr_def)
  have 1: "parse_response ?fs ?pint ''bad'' =
      Inl (RuntimeError (''QuickBooks error ('' @ str_int 3120 @ ''): ''
               @ get_attr ?el ''statusMessage'' ''''))"
    using parse_response_status [of ?fs ?pint "''bad''" ?bad ?el 3120] fb sb pb by simp
  have 2: "parse_response ?fs ?pint ''none'' =
        Inl (RuntimeError ''QuickBooks response missing status information'')"
    using parse_response_status [of ?fs ?pint "''none''" ?none ?el 3120] fn sn by simp
  have 3: "parse_response ?fs ?pint ''ok'' = Inr ?ok"
    by (simp add: parse_response_def find_status_def get_attr_def)
  have 4: "''QuickBooks error ('' @ str_int 3120 @ ''): '' @ get_attr ?el ''statusMessage'' ''''
      = ''QuickBooks error (3120): Object not found''"
    by (simp add: str_int_3120 get_attr_def)
  show ?thesis
    unfolding Let_def using fb fn sb sn 1 2 3 4 by simp
qed

section \<open>Adding a bill\<close>

text \<open>
  The three ways through \<open>add_bill_to_qb\<close>. A record without supplier, or whose amount
  is missing, zero or negative, is returned as it came and nothing is sent. When the
  request fails the flag is cleared and the record returned. When the request succeeds the
  flag is set and the call returns \<open>None\<close>.
\<close>

lemma add_bill_to_qb_invalid:
  "\<not> truthy (supplier bill) \<or> amount_invalid (amount bill) \<Longrightarrow>
     add_bill_to_qb s fs pint fmt2 bill = \<lparr>returned = Some bill, bill_after = bill, requests = []\<rparr>"
  by (auto simp: add_bill_to_qb_def)

lemma add_bill_to_qb_failure:
  "truthy (supplier bill) \<Longrightarrow> \<not> amount_invalid (amount bill) \<Longrightarrow>
   send_qbxml s fs pint (bill_add_qbxml fmt2 bill) = Inl e \<Longrightarrow>
     add_bill_to_qb s fs pint fmt2 bill =
       \<lparr>returned = Some (bill\<lparr>added_to_qb := False\<rparr>), bill_after = bill\<lparr>added_to_qb := False\<rparr>,
        requests = [bill_add_qbxml fmt2 bill]\<rparr>"
  by (simp add: add_bill_to_qb_def)

lemma add_bill_to_qb_success:
  "truthy (supplier bill) \<Longrightarrow> \<not> amount_invalid (amount bill) \<Longrightarrow>
   send_qbxml s fs pint (bill_add_qbxml fmt2 bill) = Inr response \<Longrightarrow>
     add_bill_to_qb s fs pint fmt2 bill =
       \<lparr>returned = None, bill_after = bill\<lparr>added_to_qb := True\<rparr>,
        requests = [bill_add_qbxml fmt2 bill]\<rparr>"
  by (simp add: add_bill_to_qb_def)

lemma amount_invalid_iff:
  "amount_invalid a \<longleftrightarrow>
     a = None \<or> a = Some NegZero \<or> a = Some NegInf \<or> (\<exists>r. a = Some (Finite r) \<and> r \<le> 0)"
  by (auto simp: amount_invalid_def float_truthy_def float_le_zero_def split: option.splits pyfloat.splits)

text \<open>
  The loop of the script sets the flag on every record of \<open>excel_only\<close>, whatever the
  call did with it.
\<close>

lemma write_back_marks_all:
  "b \<in> set (write_back s fs pint fmt2 bills) \<Longrightarrow> added_to_qb b"
  by (auto simp: write_back_def)

text \<open>
  Claim C7. The claim asks that a successful write return the record with the flag set.
  For the record with id 1, supplier Acme and amount 100, a session that answers and a
  response with status code 0, the flag is set on the record but the value returned is
  \<open>None\<close>, not the record.
\<close>

theorem add_bill_to_qb_success_returns_none:
  "returned (add_bill_to_qb (\<lambda>q. Inr ''ok'')
       (\<lambda>raw. Some (Element ''QBXML'' [] [Element ''BillAddRs'' [(''statusCode'', ''0'')] []]))
       (\<lambda>s. Some 0) (\<lambda>x. ''100.00'')
       ((BillRecord_init ''1'')\<lparr>supplier := Some ''Acme'', amount := Some (Finite 100)\<rparr>)) = None \<and>
   bill_after (add_bill_to_qb (\<lambda>q. Inr ''ok'')
       (\<lambda>raw. Some (Element ''QBXML'' [] [Element ''BillAddRs'' [(''statusCode'', ''0'')] []]))
       (\<lambda>s. Some 0) (\<lambda>x. ''100.00'')
       ((BillRecord_init ''1'')\<lparr>supplier := Some ''Acme'', amount := Some (Finite 100)\<rparr>)) =
     (BillRecord_init ''1'')\<lparr>supplier := Some ''Acme'', amount := Some (Finite 100),
        added_to_qb := True\<rparr>"
proof -
  let ?fs = "\<lambda>raw::string. Some (Element ''QBXML'' [] [Element ''BillAddRs'' [(''statusCode'', ''0'')] []])"
  let ?s = "\<lambda>q::string. Inr ''ok'' :: py_error + string"
  let ?pint = "\<lambda>s::string. Some (0::int)"
  let ?bill = "(BillRecord_init ''1'')\<lparr>supplier := Some ''Acme'', amount := Some (Finite 100)\<rparr>"
  have sup: "truthy (supplier ?bill)"
    by (simp add: truthy_def)
  have amt: "\<not> amount_invalid (amount ?bill)"
    by (simp add: amount_invalid_def float_truthy_def float_le_zero_def)
  have send: "send_qbxml ?s ?fs ?pint q =
      Inr (Element ''QBXML'' [] [Element ''BillAddRs'' [(''statusCode'', ''0'')] []])" for q
    by (simp add: send_qbxml_def parse_response_def find_status_def get_attr_def)
  have "add_bill_to_qb ?s ?fs ?pint (\<lambda>x. ''100.00'') ?bill =
      \<lparr>returned = None, bill_after = ?bill\<lparr>added_to_qb := True\<rparr>,
       requests = [bill_add_qbxml (\<lambda>x. ''100.00'') ?bill]\<rparr>"
    using sup amt send by (rule add_bill_to_qb_success)
  then show ?thesis
    by simp
qed

section \<open>The report class and its serialisation\<close>

text \<open>
  In the document that \<open>to_json\<close> of the first \<open>ComparisonReport\<close> builds, each count
  of \<open>summary\<close> is the length of the array it counts.
\<close>

lemma to_json_data_summary:
  "json_get (the (json_get (to_json_data ab ac eo qo cs ms) ''summary'')) ''total_excel_only''
     = array_len (the (json_get (to_json_data ab ac eo qo cs ms) ''excel_only'')) \<and>
   json_get (the (json_get (to_json_data ab ac eo qo cs ms) ''summary'')) ''total_qb_only''
     = array_len (the (json_get (to_json_data ab ac eo qo cs ms) ''qb_only'')) \<and>
   json_get (the (json_get (to_json_data ab ac eo qo cs ms) ''summary'')) ''total_conflicts''
     = array_len (the (json_get (to_json_data ab ac eo qo cs ms) ''conflicts'')) \<and>
   json_get (the (json_get (to_json_data ab ac eo qo cs ms) ''summary'')) ''total_matched''
     = array_len (the (json_get (to_json_data ab ac eo qo cs ms) ''matched''))"
  by (simp add: to_json_data_def json_get_def array_len_def)

text \<open>
  Claim C9. The claim asks for a serialisation of every \<open>ComparisonReport\<close> whose
  \<open>summary\<close> counts the four arrays, \<open>matched\<close> among them. Once models.py has run,
  the name \<open>ComparisonReport\<close> is bound to the second class, which has the three fields
  \<open>excel_only\<close>, \<open>qb_only\<close>, \<open>conflicts\<close> and no method: on a report of this
  class neither \<open>to_json\<close> nor \<open>matched\<close> exists.
\<close>

theorem comparison_report_rebound:
  "bind_classes models_py ''ComparisonReport'' =
     Some (ClassDef [''excel_only'', ''qb_only'', ''conflicts''] []) \<and>
   class_attr (ClassDef [''excel_only'', ''qb_only'', ''conflicts''] []) ''to_json'' = None \<and>
   class_attr (ClassDef [''excel_only'', ''qb_only'', ''conflicts''] []) ''matched'' = None"
  by (simp add: bind_classes_def models_py_def class_attr_def)

section \<open>Records read from the spreadsheet\<close>







end
